theory Spec2Isabelle
  imports Complex_Main "HOL-Library.Sublist" "HOL-Library.Log_Nat"
begin

section \<open>Single-precision floats\<close>

text \<open>
  A C++ \<^verbatim>\<open>float\<close> is an IEEE 754 binary32 value: a finite number, an infinity or a
  NaN. A finite value is kept as the real number it denotes (the sign of a zero is not
  kept). Arithmetic is evaluated in single precision: an operation returns its exact
  real result rounded to the nearest value with a 24-bit significand, ties to the even
  significand, with gradual underflow below 2 to the power -126 and overflow to an
  infinity from 2 to the power 128 on.
\<close>

datatype float32 = Finite real | PosInf | NegInf | NaN

text \<open>The exponent \<open>e\<close> of a positive real \<open>x\<close>: \<open>pow2 e \<le> x < pow2 (e + 1)\<close>.\<close>

definition exponentOf :: "real \<Rightarrow> int" where
  "exponentOf x = (if 1 \<le> x then bitlen \<lfloor>x\<rfloor> - 1 else - bitlen (\<lceil>1 / x\<rceil> - 1))"

definition pow2 :: "int \<Rightarrow> real" where
  "pow2 t = (if 0 \<le> t then 2 ^ nat t else 1 / 2 ^ nat (- t))"

definition roundHalfEven :: "real \<Rightarrow> int" where
  "roundHalfEven q =
     (let n = \<lfloor>q\<rfloor>; f = q - of_int n
      in if f < 1 / 2 then n else if 1 / 2 < f then n + 1 else if even n then n else n + 1)"

text \<open>
  Rounding a real to binary32. The last place of the result has weight \<open>pow2 t\<close>, 23
  places below the leading bit and never below \<open>pow2 (- 149)\<close>.
\<close>

definition round32 :: "real \<Rightarrow> float32" where
  "round32 x =
     (if x = 0 then Finite 0
      else
        let a = \<bar>x\<bar>;
            t = max (exponentOf a - 23) (- 149);
            y = of_int (roundHalfEven (a / pow2 t)) * pow2 t
        in if 2 ^ 128 \<le> y then (if x < 0 then NegInf else PosInf)
           else Finite (if x < 0 then - y else y))"

fun fmul :: "float32 \<Rightarrow> float32 \<Rightarrow> float32" where
  "fmul (Finite x) (Finite y) = round32 (x * y)"
| "fmul NaN b = NaN"
| "fmul a NaN = NaN"
| "fmul (Finite x) b =
     (if x = 0 then NaN else if (x < 0) = (b = NegInf) then PosInf else NegInf)"
| "fmul a (Finite y) =
     (if y = 0 then NaN else if (y < 0) = (a = NegInf) then PosInf else NegInf)"
| "fmul a b = (if a = b then PosInf else NegInf)"

fun fadd :: "float32 \<Rightarrow> float32 \<Rightarrow> float32" where
  "fadd (Finite x) (Finite y) = round32 (x + y)"
| "fadd NaN b = NaN"
| "fadd a NaN = NaN"
| "fadd (Finite x) b = b"
| "fadd a (Finite y) = a"
| "fadd a b = (if a = b then a else NaN)"

text \<open>Division; a zero divisor is taken as the positive zero.\<close>

fun fdiv :: "float32 \<Rightarrow> float32 \<Rightarrow> float32" where
  "fdiv (Finite x) (Finite y) =
     (if y \<noteq> 0 then round32 (x / y)
      else if x = 0 then NaN else if x < 0 then NegInf else PosInf)"
| "fdiv NaN b = NaN"
| "fdiv a NaN = NaN"
| "fdiv (Finite x) b = Finite 0"
| "fdiv a (Finite y) = (if (y < 0) = (a = NegInf) then PosInf else NegInf)"
| "fdiv a b = NaN"

text \<open>The comparison \<^verbatim>\<open><\<close>: false whenever an operand is a NaN.\<close>

fun flt :: "float32 \<Rightarrow> float32 \<Rightarrow> bool" where
  "flt (Finite x) (Finite y) = (x < y)"
| "flt NaN b = False"
| "flt a NaN = False"
| "flt a NegInf = False"
| "flt PosInf b = False"
| "flt a b = True"

text \<open>\<^verbatim>\<open>std::min(a, b)\<close> is \<^verbatim>\<open>(b < a) ? b : a\<close>, \<^verbatim>\<open>std::max(a, b)\<close> is \<^verbatim>\<open>(a < b) ? b : a\<close>.\<close>

definition fmin :: "float32 \<Rightarrow> float32 \<Rightarrow> float32" where
  "fmin a b = (if flt b a then b else a)"

definition fmax :: "float32 \<Rightarrow> float32 \<Rightarrow> float32" where
  "fmax a b = (if flt a b then b else a)"

section \<open>Data model\<close>

text \<open>
  The program drives the OpenCV library through a matrix of detector and descriptor
  configurations. The values it handles are OpenCV's: points, rectangles, keypoints and
  matches. C++ \<^verbatim>\<open>float\<close> values are binary32 values, \<^verbatim>\<open>int\<close> values integers,
  \<^verbatim>\<open>size_t\<close> counters naturals.
\<close>

record Point2f =
  pt_x :: float32
  pt_y :: float32

record Rect =
  rect_x :: int
  rect_y :: int
  rect_width :: int
  rect_height :: int

record KeyPoint =
  pt :: Point2f
  kp_size :: float32
  angle :: float32
  response :: float32
  octave :: int
  class_id :: int

record DMatch =
  queryIdx :: int
  trainIdx :: int
  imgIdx :: int
  distance :: float32

text \<open>
  The exceptions the program throws or receives, all derived from \<^verbatim>\<open>std::exception\<close>:
  \<^verbatim>\<open>std::runtime_error\<close>, \<^verbatim>\<open>std::invalid_argument\<close> and the library's
  \<^verbatim>\<open>cv::Exception\<close>. A run either throws one of them or has undefined behaviour (an
  unchecked index into a vector, \<^verbatim>\<open>pop_front\<close> on an empty deque), which no handler
  catches.
\<close>

datatype exn = RuntimeError string | InvalidArgument string | CvException string

datatype failure = Thrown exn | Undefined

fun what :: "exn \<Rightarrow> string" where
  "what (RuntimeError msg) = msg"
| "what (InvalidArgument msg) = msg"
| "what (CvException msg) = msg"

datatype norm_type = NORM_HAMMING | NORM_L2

text \<open>
  The three matcher objects \<^verbatim>\<open>matchDescriptors\<close> constructs: a brute-force matcher with
  a norm and the cross-check flag, a FLANN matcher over an LSH index with its three
  parameters, and the library's default FLANN matcher.
\<close>

datatype matcher = BFMatcher norm_type bool | FlannLsh nat nat nat | FlannBased

text \<open>
  The vision library and the build are parameters of the model. An image is a value of
  type \<open>'img\<close>; a descriptor matrix is the list of its rows, one element of type \<open>'d\<close> per
  row. \<open>imread\<close> returns \<open>None\<close> for the empty matrix it yields on a missing or unreadable
  file. \<open>compute\<close> returns the keypoint vector as the extractor leaves it (it is passed
  by reference) together with the descriptors. \<open>has_xfeatures2d\<close> is the compile-time
  macro \<^verbatim>\<open>HAS_XFEATURES2D\<close>.
\<close>

record ('img, 'd) vision =
  imread :: "string \<Rightarrow> 'img option"
  cvtColor :: "'img \<Rightarrow> 'img"
  contains :: "Rect \<Rightarrow> Point2f \<Rightarrow> bool"
  detect :: "string \<Rightarrow> 'img \<Rightarrow> exn + KeyPoint list"
  compute :: "string \<Rightarrow> 'img \<Rightarrow> KeyPoint list \<Rightarrow> exn + (KeyPoint list \<times> 'd list)"
  cv_match :: "matcher \<Rightarrow> 'd list \<Rightarrow> 'd list \<Rightarrow> exn + DMatch list"
  knnMatch :: "matcher \<Rightarrow> 'd list \<Rightarrow> 'd list \<Rightarrow> nat \<Rightarrow> exn + DMatch list list"
  has_xfeatures2d :: bool

section \<open>Matching (matching2D)\<close>

definition quoted :: "string \<Rightarrow> string" where
  "quoted s = [CHR 0x27] @ s @ [CHR 0x27]"

definition isBinaryDescriptor :: "string \<Rightarrow> bool" where
  "isBinaryDescriptor descriptorType = (descriptorType \<noteq> ''SIFT'')"

definition normType :: "string \<Rightarrow> norm_type" where
  "normType descriptorType =
     (if isBinaryDescriptor descriptorType then NORM_HAMMING else NORM_L2)"

definition makeMatcher :: "string \<Rightarrow> string \<Rightarrow> failure + matcher" where
  "makeMatcher descriptorType matcherType =
     (if matcherType = ''MAT_BF'' then Inr (BFMatcher (normType descriptorType) False)
      else if matcherType = ''MAT_FLANN'' then
        (if isBinaryDescriptor descriptorType then Inr (FlannLsh 12 20 2) else Inr FlannBased)
      else Inl (Thrown (InvalidArgument
        (''matchDescriptors: unknown matcherType '' @ quoted matcherType))))"

text \<open>The constant \<^verbatim>\<open>0.8f\<close>: the decimal 0.8 converted to binary32.\<close>

definition ratio_thresh :: float32 where
  "ratio_thresh = round32 0.8"

text \<open>
  Lowe's ratio test, the loop over \<^verbatim>\<open>knn_matches\<close>. The source reads \<^verbatim>\<open>m[0]\<close> and
  \<^verbatim>\<open>m[1]\<close> with no bounds check: on a row of fewer than two entries the read is out of
  range.
\<close>

fun ratioTest :: "DMatch list list \<Rightarrow> DMatch list \<Rightarrow> failure + DMatch list" where
  "ratioTest [] matches = Inr matches"
| "ratioTest (m # knn_matches) matches =
     (if length m < 2 then Inl Undefined
      else if flt (distance (m ! 0)) (fmul ratio_thresh (distance (m ! 1)))
        then ratioTest knn_matches (matches @ [m ! 0])
        else ratioTest knn_matches matches)"

text \<open>
  \<^verbatim>\<open>matchDescriptors\<close>. The keypoint vectors are parameters the source never reads.
  \<open>matches\<close> is the caller's vector: the library's \<^verbatim>\<open>match\<close> overwrites it, the ratio
  test appends to it.
\<close>

definition matchDescriptors ::
  "('img, 'd) vision \<Rightarrow> KeyPoint list \<Rightarrow> KeyPoint list \<Rightarrow> 'd list \<Rightarrow> 'd list \<Rightarrow>
   DMatch list \<Rightarrow> string \<Rightarrow> string \<Rightarrow> string \<Rightarrow> failure + DMatch list" where
  "matchDescriptors lib kPtsSource kPtsRef descSource descRef matches
       descriptorType matcherType selectorType =
     (case makeMatcher descriptorType matcherType of
        Inl f \<Rightarrow> Inl f
      | Inr matcher \<Rightarrow>
          if selectorType = ''SEL_NN'' then
            (case cv_match lib matcher descSource descRef of
               Inl e \<Rightarrow> Inl (Thrown e)
             | Inr found \<Rightarrow> Inr found)
          else if selectorType = ''SEL_KNN'' then
            (case knnMatch lib matcher descSource descRef 2 of
               Inl e \<Rightarrow> Inl (Thrown e)
             | Inr knn_matches \<Rightarrow> ratioTest knn_matches matches)
          else Inl (Thrown (InvalidArgument
            (''matchDescriptors: unknown selectorType '' @ quoted selectorType))))"

section \<open>Detection and description (matching2D)\<close>

text \<open>
  \<^verbatim>\<open>detKeypoints\<close> dispatches on the detector name. The detection algorithms
  themselves (corner responses, non-maximum suppression, the library's detectors) are
  the library parameter \<open>detect\<close>; the dispatch, the build check for SIFT and the
  failure on an unknown name are the source's. The runner always passes an empty
  keypoint vector, so the result is the detected keypoints.
\<close>

definition detKeypoints :: "('img, 'd) vision \<Rightarrow> 'img \<Rightarrow> string \<Rightarrow> failure + KeyPoint list" where
  "detKeypoints lib img detectorType =
     (if detectorType \<in> {''SHITOMASI'', ''HARRIS'', ''FAST'', ''BRISK'', ''ORB'', ''AKAZE''}
        \<or> (detectorType = ''SIFT'' \<and> has_xfeatures2d lib) then
        (case detect lib detectorType img of
           Inl e \<Rightarrow> Inl (Thrown e)
         | Inr keypoints \<Rightarrow> Inr keypoints)
      else if detectorType = ''SIFT'' then
        Inl (Thrown (RuntimeError ''detKeypoints: SIFT requires opencv-contrib (xfeatures2d).''))
      else Inl (Thrown (InvalidArgument
        (''detKeypoints: unknown detectorType '' @ quoted detectorType))))"

definition descKeypoints ::
  "('img, 'd) vision \<Rightarrow> KeyPoint list \<Rightarrow> 'img \<Rightarrow> string \<Rightarrow>
   failure + (KeyPoint list \<times> 'd list)" where
  "descKeypoints lib keypoints img descriptorType =
     (if descriptorType \<in> {''BRISK'', ''ORB'', ''AKAZE''}
        \<or> (descriptorType \<in> {''SIFT'', ''BRIEF'', ''FREAK''} \<and> has_xfeatures2d lib) then
        (case compute lib descriptorType img keypoints of
           Inl e \<Rightarrow> Inl (Thrown e)
         | Inr r \<Rightarrow> Inr r)
      else if descriptorType \<in> {''SIFT'', ''BRIEF'', ''FREAK''} then
        Inl (Thrown (RuntimeError
          (''descKeypoints: '' @ descriptorType @ '' requires opencv-contrib (xfeatures2d).'')))
      else Inl (Thrown (InvalidArgument
        (''descKeypoints: unknown descriptorType '' @ quoted descriptorType))))"

section \<open>The combination runner\<close>

definition kVehicleROI :: Rect where
  "kVehicleROI = \<lparr>rect_x = 535, rect_y = 180, rect_width = 180, rect_height = 150\<rparr>"



definition loadGrayscaleImage :: "('img, 'd) vision \<Rightarrow> string \<Rightarrow> failure + 'img" where
  "loadGrayscaleImage lib path =
     (case imread lib path of
        None \<Rightarrow> Inl (Thrown (RuntimeError
          (''loadGrayscaleImage: could not open '' @ quoted path)))
      | Some img \<Rightarrow> Inr (cvtColor lib img))"

text \<open>
  The erase-remove step of \<^verbatim>\<open>detectAndFilterKeypoints\<close>: \<^verbatim>\<open>remove_if\<close> drops the
  keypoints the rectangle does not contain and keeps the others in their order.
\<close>

definition roiFilter :: "('img, 'd) vision \<Rightarrow> bool \<Rightarrow> KeyPoint list \<Rightarrow> KeyPoint list" where
  "roiFilter lib bFocusOnVehicle keypoints =
     (if bFocusOnVehicle
      then filter (\<lambda>kp. contains lib kVehicleROI (pt kp)) keypoints
      else keypoints)"

definition detectAndFilterKeypoints ::
  "('img, 'd) vision \<Rightarrow> 'img \<Rightarrow> string \<Rightarrow> bool \<Rightarrow> failure + KeyPoint list" where
  "detectAndFilterKeypoints lib img detectorType bFocusOnVehicle =
     (case detKeypoints lib img detectorType of
        Inl f \<Rightarrow> Inl f
      | Inr keypoints \<Rightarrow> Inr (roiFilter lib bFocusOnVehicle keypoints))"

subsection \<open>The statistics sinks\<close>

text \<open>
  A line of a log file is its header or a row of values; the numbers of a row are kept
  as numbers, not as their printed text. The standard output is not modelled.
\<close>

datatype 'r line = Header string | Row 'r

record KeypointRow =
  kr_imgIndex :: nat
  kr_detectorType :: string
  kr_numKeypoints :: nat
  kr_minSize :: float32
  kr_maxSize :: float32
  kr_meanSize :: float32

record MatchRow =
  mr_imgIndex :: nat
  mr_detectorType :: string
  mr_descriptorType :: string
  mr_numMatches :: nat

record sinks =
  keypointLog :: "KeypointRow line list"
  matchLog :: "MatchRow line list"
  savedImages :: "string list"
  cerr :: string

definition FLT_MAX :: float32 where
  "FLT_MAX = Finite ((2 - 1 / 2 ^ 23) * 2 ^ 127)"

text \<open>
  The accumulation loop of \<^verbatim>\<open>logKeypointStats\<close> over the keypoint sizes: minimum,
  maximum and sum, each step in single precision.
\<close>

fun sizeStats ::
  "KeyPoint list \<Rightarrow> float32 \<times> float32 \<times> float32 \<Rightarrow> float32 \<times> float32 \<times> float32" where
  "sizeStats [] acc = acc"
| "sizeStats (kp # keypoints) (minSz, maxSz, meanSz) =
     sizeStats keypoints
       (fmin minSz (kp_size kp), fmax maxSz (kp_size kp), fadd meanSz (kp_size kp))"

definition logKeypointStats ::
  "KeypointRow line list \<Rightarrow> nat \<Rightarrow> string \<Rightarrow> KeyPoint list \<Rightarrow> KeypointRow line list" where
  "logKeypointStats logf imgIndex detectorType keypoints =
     (case sizeStats keypoints (FLT_MAX, Finite 0, Finite 0) of
        (minSz, maxSz, meanSz) \<Rightarrow>
          logf @ [Row \<lparr>kr_imgIndex = imgIndex, kr_detectorType = detectorType,
                      kr_numKeypoints = length keypoints,
                      kr_minSize = (if keypoints \<noteq> [] then minSz else Finite 0),
                      kr_maxSize = maxSz,
                      kr_meanSize =
                        (if keypoints \<noteq> [] then fdiv meanSz (round32 (real (length keypoints)))
                         else meanSz)\<rparr>])"

subsection \<open>The frame buffer\<close>

record ('img, 'd) DataFrame =
  cameraImg :: 'img
  keypoints :: "KeyPoint list"
  descriptors :: "'d list"
  kptMatches :: "DMatch list"

definition newFrame :: "'img \<Rightarrow> ('img, 'd) DataFrame" where
  "newFrame imgGray = \<lparr>cameraImg = imgGray, keypoints = [], descriptors = [], kptMatches = []\<rparr>"

text \<open>
  The ring-buffer step of the runner: when the deque holds \<^verbatim>\<open>dataBufferSize\<close> frames
  its front is popped, then the new frame is pushed at the back. \<^verbatim>\<open>pop_front\<close> on an
  empty deque (a capacity of 0) is undefined.
\<close>

definition pushFrame ::
  "int \<Rightarrow> ('img, 'd) DataFrame \<Rightarrow> ('img, 'd) DataFrame list \<Rightarrow>
   failure + ('img, 'd) DataFrame list" where
  "pushFrame dataBufferSize frame dataBuffer =
     (if int (length dataBuffer) = dataBufferSize then
        (case dataBuffer of
           [] \<Rightarrow> Inl Undefined
         | oldest # rest \<Rightarrow> Inr (rest @ [frame]))
      else Inr (dataBuffer @ [frame]))"

text \<open>
  The two frames the runner reads: \<^verbatim>\<open>dataBuffer[dataBuffer.size() - 2]\<close> and
  \<^verbatim>\<open>dataBuffer.back()\<close>; and an assignment to a field of \<^verbatim>\<open>dataBuffer.back()\<close>.
\<close>

definition previousFrame :: "('img, 'd) DataFrame list \<Rightarrow> ('img, 'd) DataFrame" where
  "previousFrame dataBuffer = dataBuffer ! (length dataBuffer - 2)"

definition latestFrame :: "('img, 'd) DataFrame list \<Rightarrow> ('img, 'd) DataFrame" where
  "latestFrame dataBuffer = last dataBuffer"

definition updateBack ::
  "(('img, 'd) DataFrame \<Rightarrow> ('img, 'd) DataFrame) \<Rightarrow> ('img, 'd) DataFrame list \<Rightarrow>
   ('img, 'd) DataFrame list" where
  "updateBack f dataBuffer =
     (if dataBuffer = [] then [] else butlast dataBuffer @ [f (last dataBuffer)])"

subsection \<open>File names\<close>

fun decimal :: "nat \<Rightarrow> string" where
  "decimal n =
     (if n < 10 then [''0123456789'' ! n]
      else decimal (n div 10) @ [''0123456789'' ! (n mod 10)])"

declare decimal.simps [simp del]

definition showInt :: "int \<Rightarrow> string" where
  "showInt i = (if i < 0 then CHR ''-'' # decimal (nat (- i)) else decimal (nat i))"

text \<open>The stream manipulators \<^verbatim>\<open>setfill('0')\<close> and \<^verbatim>\<open>setw(imgFillWidth)\<close>.\<close>

definition zeroPadded :: "int \<Rightarrow> int \<Rightarrow> string" where
  "zeroPadded width i = replicate (nat width - length (showInt i)) CHR ''0'' @ showInt i"

record imageSource =
  imgBasePath :: string
  imgPrefix :: string
  imgFileType :: string
  imgStartIndex :: int
  imgEndIndex :: int
  imgFillWidth :: int

definition imgPath :: "imageSource \<Rightarrow> nat \<Rightarrow> string" where
  "imgPath src imgIndex =
     imgBasePath src @ imgPrefix src
       @ zeroPadded (imgFillWidth src) (imgStartIndex src + int imgIndex) @ imgFileType src"

text \<open>
  The name of the image of a frame pair: \<^verbatim>\<open>imgIndex - 1\<close> is computed on the unsigned
  64-bit counter.
\<close>

definition matchImagePath :: "string \<Rightarrow> string \<Rightarrow> nat \<Rightarrow> string" where
  "matchImagePath detectorType descriptorType imgIndex =
     ''../images/outputs/match_'' @ detectorType @ ''_'' @ descriptorType @ ''_frames_''
       @ decimal (nat ((int imgIndex - 1) mod 2 ^ 64)) @ ''_'' @ decimal imgIndex @ ''.png''"

subsection \<open>One image of one combination\<close>

text \<open>
  Step 5 and 6 of the loop body: with more than one frame in the buffer, the matcher
  runs on the frame before the last and the last one, the matches are stored in the last
  frame, a row goes to the match log and, when asked, the drawn matches are written
  (drawing and writing are taken to succeed; the name of the written file is recorded).
\<close>

definition matchStep ::
  "('img, 'd) vision \<Rightarrow> string \<Rightarrow> string \<Rightarrow> string \<Rightarrow> string \<Rightarrow> bool \<Rightarrow> nat \<Rightarrow>
   ('img, 'd) DataFrame list \<Rightarrow> sinks \<Rightarrow> (failure + ('img, 'd) DataFrame list) \<times> sinks" where
  "matchStep lib detectorType descriptorType matcherType selectorType bSaveImages imgIndex
       dataBuffer s =
     (if int (length dataBuffer) > 1 then
        (case matchDescriptors lib
                (keypoints (previousFrame dataBuffer)) (keypoints (latestFrame dataBuffer))
                (descriptors (previousFrame dataBuffer)) (descriptors (latestFrame dataBuffer))
                [] descriptorType matcherType selectorType of
           Inl f \<Rightarrow> (Inl f, s)
         | Inr matches \<Rightarrow>
             (Inr (updateBack (\<lambda>fr. fr\<lparr>kptMatches := matches\<rparr>) dataBuffer),
              s\<lparr>matchLog := matchLog s @
                   [Row \<lparr>mr_imgIndex = imgIndex, mr_detectorType = detectorType,
                         mr_descriptorType = descriptorType,
                         mr_numMatches = length matches\<rparr>],
                 savedImages :=
                   (if bSaveImages
                    then savedImages s @ [matchImagePath detectorType descriptorType imgIndex]
                    else savedImages s)\<rparr>))
      else (Inr dataBuffer, s))"

text \<open>Step 4 of the loop body: the descriptors of the last frame, then the match step.\<close>

definition describeStep ::
  "('img, 'd) vision \<Rightarrow> string \<Rightarrow> string \<Rightarrow> string \<Rightarrow> string \<Rightarrow> bool \<Rightarrow> nat \<Rightarrow>
   ('img, 'd) DataFrame list \<Rightarrow> sinks \<Rightarrow> (failure + ('img, 'd) DataFrame list) \<times> sinks" where
  "describeStep lib detectorType descriptorType matcherType selectorType bSaveImages imgIndex
       dataBuffer s =
     (case descKeypoints lib (keypoints (latestFrame dataBuffer))
             (cameraImg (latestFrame dataBuffer)) descriptorType of
        Inl f \<Rightarrow> (Inl f, s)
      | Inr (kps, descs) \<Rightarrow>
          matchStep lib detectorType descriptorType matcherType selectorType bSaveImages
            imgIndex
            (updateBack (\<lambda>fr. fr\<lparr>keypoints := kps, descriptors := descs\<rparr>) dataBuffer) s)"

text \<open>
  The loop body of \<^verbatim>\<open>runCombination\<close> for one image index. A failure leaves the sinks
  as they are at that moment: rows already written stay written.
\<close>

definition processImage ::
  "('img, 'd) vision \<Rightarrow> string \<Rightarrow> string \<Rightarrow> string \<Rightarrow> string \<Rightarrow> imageSource \<Rightarrow> int \<Rightarrow>
   bool \<Rightarrow> bool \<Rightarrow> nat \<Rightarrow>
   ('img, 'd) DataFrame list \<Rightarrow> sinks \<Rightarrow> (failure + ('img, 'd) DataFrame list) \<times> sinks" where
  "processImage lib detectorType descriptorType matcherType selectorType src dataBufferSize
       bFocusOnVehicle bSaveImages imgIndex dataBuffer s =
     (case loadGrayscaleImage lib (imgPath src imgIndex) of
        Inl f \<Rightarrow> (Inl f, s)
      | Inr imgGray \<Rightarrow>
          (case pushFrame dataBufferSize (newFrame imgGray) dataBuffer of
             Inl f \<Rightarrow> (Inl f, s)
           | Inr buf \<Rightarrow>
               (case detectAndFilterKeypoints lib (cameraImg (latestFrame buf)) detectorType
                       bFocusOnVehicle of
                  Inl f \<Rightarrow> (Inl f, s)
                | Inr kps \<Rightarrow>
                    describeStep lib detectorType descriptorType matcherType selectorType
                      bSaveImages imgIndex
                      (updateBack (\<lambda>fr. fr\<lparr>keypoints := kps\<rparr>) buf)
                      (s\<lparr>keypointLog :=
                           logKeypointStats (keypointLog s) imgIndex detectorType kps\<rparr>))))"

fun runImages ::
  "('img, 'd) vision \<Rightarrow> string \<Rightarrow> string \<Rightarrow> string \<Rightarrow> string \<Rightarrow> imageSource \<Rightarrow> int \<Rightarrow>
   bool \<Rightarrow> bool \<Rightarrow> nat list \<Rightarrow>
   ('img, 'd) DataFrame list \<Rightarrow> sinks \<Rightarrow> (failure + ('img, 'd) DataFrame list) \<times> sinks" where
  "runImages lib detectorType descriptorType matcherType selectorType src dataBufferSize
       bFocusOnVehicle bSaveImages [] dataBuffer s = (Inr dataBuffer, s)"
| "runImages lib detectorType descriptorType matcherType selectorType src dataBufferSize
       bFocusOnVehicle bSaveImages (imgIndex # rest) dataBuffer s =
     (case processImage lib detectorType descriptorType matcherType selectorType src
             dataBufferSize bFocusOnVehicle bSaveImages imgIndex dataBuffer s of
        (Inl f, s') \<Rightarrow> (Inl f, s')
      | (Inr buf, s') \<Rightarrow>
          runImages lib detectorType descriptorType matcherType selectorType src
            dataBufferSize bFocusOnVehicle bSaveImages rest buf s')"

text \<open>
  \<^verbatim>\<open>runCombination\<close>: the image indices run from 0 to
  \<^verbatim>\<open>(size_t)(imgEndIndex - imgStartIndex)\<close> inclusive, over a buffer that starts empty
  and is dropped at the end. (Only for a difference of exactly -1 would the 64-bit
  counter wrap before the bound is passed; the program runs with 0 and 9.)
\<close>

definition imageIndices :: "imageSource \<Rightarrow> nat list" where
  "imageIndices src = [0 ..< Suc (nat ((imgEndIndex src - imgStartIndex src) mod 2 ^ 64))]"

definition runCombination ::
  "('img, 'd) vision \<Rightarrow> string \<Rightarrow> string \<Rightarrow> string \<Rightarrow> string \<Rightarrow> imageSource \<Rightarrow> int \<Rightarrow>
   bool \<Rightarrow> bool \<Rightarrow> sinks \<Rightarrow> (failure + unit) \<times> sinks" where
  "runCombination lib detectorType descriptorType matcherType selectorType src dataBufferSize
       bFocusOnVehicle bSaveImages s =
     (case runImages lib detectorType descriptorType matcherType selectorType src
             dataBufferSize bFocusOnVehicle bSaveImages (imageIndices src) [] s of
        (Inl f, s') \<Rightarrow> (Inl f, s')
      | (Inr buf, s') \<Rightarrow> (Inr (), s'))"

section \<open>The sweep (main)\<close>

record options =
  singleDetector :: string
  singleDescriptor :: string
  matcherType :: string
  selectorType :: string
  bSaveImages :: bool

definition defaultOptions :: options where
  "defaultOptions =
     \<lparr>singleDetector = [], singleDescriptor = [], matcherType = ''MAT_BF'',
      selectorType = ''SEL_KNN'', bSaveImages = False\<rparr>"



definition mainImageSource :: imageSource where
  "mainImageSource =
     \<lparr>imgBasePath = ''../'' @ ''images/'',
      imgPrefix = ''KITTI/2011_09_26/image_00/data/000000'',
      imgFileType = ''.png'',
      imgStartIndex = 0, imgEndIndex = 9, imgFillWidth = 4\<rparr>"

definition mainDataBufferSize :: int where
  "mainDataBufferSize = 2"

definition mainFocusOnVehicle :: bool where
  "mainFocusOnVehicle = True"



definition errorReport :: "string \<Rightarrow> string \<Rightarrow> exn \<Rightarrow> string" where
  "errorReport det desc e = ''[ERROR] '' @ det @ ''+'' @ desc @ '': '' @ what e @ [CHR 0x0A]"

text \<open>
  The \<^verbatim>\<open>try\<close> block around one combination: an exception is reported on the error
  stream and the sweep goes on; undefined behaviour (\<open>None\<close>) is beyond any handler.
\<close>

definition tryCombination ::
  "('img, 'd) vision \<Rightarrow> options \<Rightarrow> string \<Rightarrow> string \<Rightarrow> sinks \<Rightarrow> sinks option" where
  "tryCombination lib opts det desc s =
     (case runCombination lib det desc (matcherType opts) (selectorType opts)
             mainImageSource mainDataBufferSize mainFocusOnVehicle (bSaveImages opts) s of
        (Inr u, s') \<Rightarrow> Some s'
      | (Inl (Thrown e), s') \<Rightarrow> Some (s'\<lparr>cerr := cerr s' @ errorReport det desc e\<rparr>)
      | (Inl Undefined, s') \<Rightarrow> None)"

fun descriptorLoop ::
  "('img, 'd) vision \<Rightarrow> options \<Rightarrow> string \<Rightarrow> string list \<Rightarrow> sinks \<Rightarrow> sinks option" where
  "descriptorLoop lib opts det [] s = Some s"
| "descriptorLoop lib opts det (desc # rest) s =
     (if desc = ''AKAZE'' \<and> det \<noteq> ''AKAZE'' then descriptorLoop lib opts det rest s
      else
        (case tryCombination lib opts det desc s of
           None \<Rightarrow> None
         | Some s' \<Rightarrow> descriptorLoop lib opts det rest s'))"

fun detectorLoop ::
  "('img, 'd) vision \<Rightarrow> options \<Rightarrow> string list \<Rightarrow> string list \<Rightarrow> sinks \<Rightarrow> sinks option" where
  "detectorLoop lib opts [] descs s = Some s"
| "detectorLoop lib opts (det # rest) descs s =
     (case descriptorLoop lib opts det descs s of
        None \<Rightarrow> None
      | Some s' \<Rightarrow> detectorLoop lib opts rest descs s')"

definition openLogs :: sinks where
  "openLogs =
     \<lparr>keypointLog = [Header ''ImageIndex,DetectorType,NumKeypoints,MinSize,MaxSize,MeanSize''],
      matchLog = [Header ''ImageIndex,DetectorType,DescriptorType,NumMatches''],
      savedImages = [], cerr = []\<rparr>"


section \<open>Notions of the specification\<close>

text \<open>
  The specification speaks of a list of valid pairings on which the runner is invoked.
  These two definitions follow its words, to be compared with the loops of \<^verbatim>\<open>main\<close>.
\<close>

definition spec_validPairings :: "string list \<Rightarrow> string list \<Rightarrow> (string \<times> string) list" where
  "spec_validPairings dets descs =
     concat (map (\<lambda>det. map (\<lambda>desc. (det, desc))
       (filter (\<lambda>desc. desc \<noteq> ''AKAZE'' \<or> det = ''AKAZE'') descs)) dets)"

fun spec_runPairings ::
  "('img, 'd) vision \<Rightarrow> options \<Rightarrow> (string \<times> string) list \<Rightarrow> sinks \<Rightarrow> sinks option" where
  "spec_runPairings lib opts [] s = Some s"
| "spec_runPairings lib opts ((det, desc) # rest) s =
     (case tryCombination lib opts det desc s of
        None \<Rightarrow> None
      | Some s' \<Rightarrow> spec_runPairings lib opts rest s')"


section \<open>A stand-in library for concrete runs\<close>

text \<open>
  To run the model on concrete inputs the library parameter needs a value. This one
  reads every file but the listed ones, detects a fixed list of keypoints, describes a
  keypoint by its x coordinate, and matches exhaustively by absolute difference, nearest
  first, the first of equally near candidates first. The rectangle test is the library's: left and top edges inside, right and
  bottom edges outside. The build has no contrib module.
\<close>

definition valueOf :: "float32 \<Rightarrow> real" where
  "valueOf a = (case a of Finite x \<Rightarrow> x | _ \<Rightarrow> 0)"

definition cvContains :: "Rect \<Rightarrow> Point2f \<Rightarrow> bool" where
  "cvContains r p =
     (case (pt_x p, pt_y p) of
        (Finite x, Finite y) \<Rightarrow>
          real_of_int (rect_x r) \<le> x \<and> x < real_of_int (rect_x r + rect_width r)
          \<and> real_of_int (rect_y r) \<le> y \<and> y < real_of_int (rect_y r + rect_height r)
      | _ \<Rightarrow> False)"

definition neighbours :: "nat \<Rightarrow> real \<Rightarrow> real list \<Rightarrow> DMatch list" where
  "neighbours i a B =
     map (\<lambda>(j, b). \<lparr>queryIdx = int i, trainIdx = int j, imgIdx = 0,
                      distance = round32 \<bar>a - b\<bar>\<rparr>)
       (sort_key (\<lambda>(j, b). \<bar>a - b\<bar>) (enumerate 0 B))"

definition bruteForce :: "real list \<Rightarrow> real list \<Rightarrow> nat \<Rightarrow> DMatch list list" where
  "bruteForce A B k = map (\<lambda>(i, a). take k (neighbours i a B)) (enumerate 0 A)"

definition keypointAt :: "real \<Rightarrow> real \<Rightarrow> real \<Rightarrow> KeyPoint" where
  "keypointAt x y sz =
     \<lparr>pt = \<lparr>pt_x = Finite x, pt_y = Finite y\<rparr>, kp_size = Finite sz, angle = Finite (- 1),
      response = Finite 0, octave = 0, class_id = - 1\<rparr>"

definition testLib :: "string list \<Rightarrow> KeyPoint list \<Rightarrow> (string, real) vision" where
  "testLib missing detected =
     \<lparr>imread = (\<lambda>path. if path \<in> set missing then None else Some path),
      cvtColor = (\<lambda>img. img),
      contains = cvContains,
      detect = (\<lambda>kind img. Inr detected),
      compute = (\<lambda>kind img kps. Inr (kps, map (\<lambda>kp. valueOf (pt_x (pt kp))) kps)),
      cv_match = (\<lambda>m A B. Inr (concat (bruteForce A B 1))),
      knnMatch = (\<lambda>m A B k. Inr (bruteForce A B k)),
      has_xfeatures2d = False\<rparr>"

definition threeKeypoints :: "KeyPoint list" where
  "threeKeypoints = [keypointAt 600 200 7, keypointAt 10 10 3, keypointAt 700 300 5]"

text \<open>A search that returns a given table of rows.\<close>

definition tableLib :: "DMatch list list \<Rightarrow> (string, real) vision" where
  "tableLib rows = (testLib [] [])\<lparr>knnMatch := (\<lambda>m A B k. Inr rows)\<rparr>"

text \<open>An extractor that breaks the alignment: one descriptor, whatever the keypoints.\<close>

definition misalignedLib :: "(string, real) vision" where
  "misalignedLib =
     (testLib [] threeKeypoints)\<lparr>compute := (\<lambda>kind img kps. Inr (kps, [600]))\<rparr>"

definition twoImages :: imageSource where
  "twoImages = mainImageSource\<lparr>imgEndIndex := 1\<rparr>"





section \<open>The ratio test\<close>


lemma ratioTest_short_row:
  "\<exists>m \<in> set knn. length m < 2 \<Longrightarrow> ratioTest knn matches = Inl Undefined"
  by (induction knn arbitrary: matches) auto



text \<open>
  C1, as stated, fails: the test is made in single precision, not on the reals. For the
  two nearest distances \<open>d1 = 11744051 / 2097152\<close> and \<open>d2 = 7\<close>, both binary32 values
  with \<open>d1 \<le> d2\<close> and \<open>d1 < 0.8 * d2\<close>, the product of \<^verbatim>\<open>0.8f\<close> and \<open>d2\<close> rounds to
  \<open>d1\<close> itself, and the match is dropped.
\<close>

theorem ratio_test_real_threshold_counterexample:
  "(11744051 / 2097152 :: real) \<le> 7
   \<and> (11744051 / 2097152 :: real) < 0.8 * 7
   \<and> round32 (11744051 / 2097152) = Finite (11744051 / 2097152)
   \<and> round32 7 = Finite 7
   \<and> fmul ratio_thresh (Finite 7) = Finite (11744051 / 2097152)
   \<and> matchDescriptors
       (tableLib
          [[\<lparr>queryIdx = 0, trainIdx = 0, imgIdx = 0, distance = Finite (11744051 / 2097152)\<rparr>,
            \<lparr>queryIdx = 0, trainIdx = 1, imgIdx = 0, distance = Finite 7\<rparr>]])
       [] [] [0] [0, 0] [] ''SIFT'' ''MAT_BF'' ''SEL_KNN'' = Inr []"
  by code_simp



text \<open>
  C5. A reference set of one descriptor: the exhaustive search returns rows of a single
  neighbour, and the ratio test reads the second entry of the row. No exception is
  thrown; the read is out of range.
\<close>

theorem ratio_test_single_candidate:
  "knnMatch (testLib [] []) (BFMatcher NORM_HAMMING False) [1, 10] [2] 2 =
     Inr [[\<lparr>queryIdx = 0, trainIdx = 0, imgIdx = 0, distance = Finite 1\<rparr>],
          [\<lparr>queryIdx = 1, trainIdx = 0, imgIdx = 0, distance = Finite 8\<rparr>]]
   \<and> matchDescriptors (testLib [] []) [] [] [1, 10] [2] [] ''BRISK'' ''MAT_BF'' ''SEL_KNN''
     = Inl Undefined"
  by code_simp

section \<open>The norm of a descriptor kind\<close>

text \<open>
  C4, as stated, fails: a kind the program does not know selects the Hamming norm and
  the matcher returns matches.
\<close>

theorem norm_unknown_kind_counterexample:
  "isBinaryDescriptor ''NEWKIND'' \<and> normType ''NEWKIND'' = NORM_HAMMING
   \<and> makeMatcher ''NEWKIND'' ''MAT_BF'' = Inr (BFMatcher NORM_HAMMING False)
   \<and> matchDescriptors (testLib [] []) [] [] [1] [2, 3] [] ''NEWKIND'' ''MAT_BF'' ''SEL_NN''
     = Inr [\<lparr>queryIdx = 0, trainIdx = 0, imgIdx = 0, distance = Finite 1\<rparr>]"
  by code_simp

text \<open>
  C4, amended. The norm is a total function of the kind string alone: \<^verbatim>\<open>SIFT\<close>, the
  floating-point kind, selects L2, and every other string selects Hamming: the binary
  kinds BRISK, ORB, AKAZE, BRIEF and FREAK, and any other name as well. Both matcher
  types are built from that norm for every kind string; none is rejected. A kind
  outside the six is rejected elsewhere, by the descriptor extraction, which throws
  \<^verbatim>\<open>invalid_argument\<close>.
\<close>

theorem norm_selection:
  "normType descriptorType = (if descriptorType = ''SIFT'' then NORM_L2 else NORM_HAMMING)
   \<and> normType ''BRISK'' = NORM_HAMMING \<and> normType ''ORB'' = NORM_HAMMING
   \<and> normType ''AKAZE'' = NORM_HAMMING \<and> normType ''BRIEF'' = NORM_HAMMING
   \<and> normType ''FREAK'' = NORM_HAMMING \<and> normType ''SIFT'' = NORM_L2
   \<and> makeMatcher descriptorType ''MAT_BF'' = Inr (BFMatcher (normType descriptorType) False)
   \<and> makeMatcher descriptorType ''MAT_FLANN'' =
       Inr (if normType descriptorType = NORM_HAMMING then FlannLsh 12 20 2 else FlannBased)
   \<and> (descriptorType \<notin> {''BRISK'', ''ORB'', ''AKAZE'', ''SIFT'', ''BRIEF'', ''FREAK''} \<longrightarrow>
       normType descriptorType = NORM_HAMMING
       \<and> descKeypoints lib kps img descriptorType =
           Inl (Thrown (InvalidArgument
             (''descKeypoints: unknown descriptorType '' @ quoted descriptorType))))"
  by (simp add: normType_def isBinaryDescriptor_def makeMatcher_def descKeypoints_def)

theorem norm_selection_witness:
  "normType ''NEWKIND'' = NORM_HAMMING
   \<and> descKeypoints (testLib [] []) [] ''image'' ''NEWKIND'' =
       Inl (Thrown (InvalidArgument
         (''descKeypoints: unknown descriptorType '' @ quoted ''NEWKIND'')))"
proof -
  have unknown: "''NEWKIND'' \<notin> {''BRISK'', ''ORB'', ''AKAZE'', ''SIFT'', ''BRIEF'', ''FREAK''}"
    by simp
  show ?thesis
    by (rule norm_selection [where descriptorType = "''NEWKIND''",
          THEN conjunct2, THEN conjunct2, THEN conjunct2, THEN conjunct2, THEN conjunct2,
          THEN conjunct2, THEN conjunct2, THEN conjunct2, THEN conjunct2, THEN mp, OF unknown])
qed

section \<open>The region-of-interest filter\<close>

lemma count_list_filter_le: "count_list (filter P xs) x \<le> count_list xs x"
  by (induction xs) auto

text \<open>
  C6. The filter keeps exactly the keypoints of \<open>K\<close> whose location the rectangle
  contains; its result is a subsequence of \<open>K\<close> (nothing new, nothing more often than
  in \<open>K\<close>, the order kept); filtering twice is filtering once; with the toggle off it is
  the identity. \<^verbatim>\<open>detectAndFilterKeypoints\<close> applies it to what the detector returns.
\<close>

theorem roi_filter_subset_idempotent:
  "set (roiFilter lib True K) = {kp \<in> set K. contains lib kVehicleROI (pt kp)}
   \<and> subseq (roiFilter lib focus K) K
   \<and> (\<forall>kp. count_list (roiFilter lib focus K) kp \<le> count_list K kp)
   \<and> roiFilter lib focus (roiFilter lib focus K) = roiFilter lib focus K
   \<and> roiFilter lib False K = K
   \<and> detectAndFilterKeypoints lib img detectorType focus =
       map_sum id (roiFilter lib focus) (detKeypoints lib img detectorType)"
  by (simp add: roiFilter_def count_list_filter_le detectAndFilterKeypoints_def
      split: sum.split)

section \<open>The frame buffer holds the last frames\<close>

lemma pushFrame_bounded:
  assumes "1 \<le> cap" and "int (length buf) \<le> cap"
  shows "pushFrame cap fr buf = Inr ((if int (length buf) = cap then tl buf else buf) @ [fr])"
  using assms by (cases buf) (auto simp: pushFrame_def)

lemma pushFrame_drop:
  assumes "1 \<le> cap" and "int (length buf) \<le> cap"
  shows "pushFrame cap fr buf = Inr (drop (Suc (length buf) - nat cap) (buf @ [fr]))"
proof (cases "int (length buf) = cap")
  case True
  then have n: "nat cap = length buf"
    by linarith
  with assms have "buf \<noteq> []"
    by auto
  then obtain oldest rest where buf: "buf = oldest # rest"
    by (cases buf) auto
  show ?thesis
    using True by (simp add: pushFrame_def n buf)
next
  case False
  with assms have "Suc (length buf) - nat cap = 0"
    by linarith
  with False show ?thesis
    by (simp add: pushFrame_def)
qed

lemma length_updateBack [simp]: "length (updateBack f buf) = length buf"
  by (simp add: updateBack_def)

lemma images_updateBack:
  "(\<And>fr. cameraImg (f fr) = cameraImg fr) \<Longrightarrow>
   map cameraImg (updateBack f buf) = map cameraImg buf"
  by (cases buf rule: rev_cases) (simp_all add: updateBack_def)

lemma matchStep_buffer:
  assumes "matchStep lib det desc mt st save i buf s = (Inr buf', s')"
  shows "map cameraImg buf' = map cameraImg buf"
  using assms
  by (auto simp: matchStep_def images_updateBack split: if_splits sum.splits)

lemma describeStep_buffer:
  assumes "describeStep lib det desc mt st save i buf s = (Inr buf', s')"
  shows "map cameraImg buf' = map cameraImg buf"
  using assms
  by (auto simp: describeStep_def images_updateBack dest!: matchStep_buffer
      split: sum.splits prod.splits)

lemma processImage_buffer:
  assumes "processImage lib det desc mt st src cap focus save i buf s = (Inr buf', s')"
  shows "\<exists>img buf1. imread lib (imgPath src i) = Some img
     \<and> pushFrame cap (newFrame (cvtColor lib img)) buf = Inr buf1
     \<and> map cameraImg buf' = map cameraImg buf1"
  using assms
  by (auto simp: processImage_def loadGrayscaleImage_def images_updateBack
      dest!: describeStep_buffer split: sum.splits option.splits)

lemma drop_window:
  "drop (length (drop (length zs - n) zs) + m - n) (drop (length zs - n) zs @ ys)
     = drop (length zs + m - n) (zs @ ys)"
proof (cases "length zs \<le> n")
  case True
  then show ?thesis by simp
next
  case False
  then have idx: "length zs + m - n = m + (length zs - n)"
    and len: "length (drop (length zs - n) zs) + m - n = m"
    by simp_all
  have "drop (m + (length zs - n)) (zs @ ys) = drop m (drop (length zs - n) (zs @ ys))"
    by (simp only: drop_drop)
  also have "\<dots> = drop m (drop (length zs - n) zs @ ys)"
    by simp
  finally show ?thesis
    by (simp only: idx len)
qed

lemma runImages_buffer:
  assumes "1 \<le> cap" and "int (length buf) \<le> cap"
    and "runImages lib det desc mt st src cap focus save idxs buf s = (Inr buf', s')"
  shows "map cameraImg buf' =
     drop (length buf + length idxs - nat cap)
       (map cameraImg buf @ map (\<lambda>i. cvtColor lib (the (imread lib (imgPath src i)))) idxs)"
  using assms
proof (induction idxs arbitrary: buf s)
  case Nil
  then show ?case by simp
next
  case (Cons i idxs)
  from Cons.prems(3) obtain buf1 s1 where
    step: "processImage lib det desc mt st src cap focus save i buf s = (Inr buf1, s1)"
    and rest: "runImages lib det desc mt st src cap focus save idxs buf1 s1 = (Inr buf', s')"
    by (auto split: prod.splits sum.splits)
  from processImage_buffer [OF step] obtain img buf2 where
    img: "imread lib (imgPath src i) = Some img"
    and push: "pushFrame cap (newFrame (cvtColor lib img)) buf = Inr buf2"
    and same: "map cameraImg buf1 = map cameraImg buf2"
    by blast
  from push pushFrame_drop [OF Cons.prems(1,2)]
  have buf2: "buf2 = drop (Suc (length buf) - nat cap) (buf @ [newFrame (cvtColor lib img)])"
    by simp
  have len: "length buf1 = length buf2"
    using same by (metis length_map)
  have bound: "int (length buf1) \<le> cap"
    using Cons.prems(1,2) by (simp add: len buf2)
  have imgs: "map cameraImg buf1 =
      drop (Suc (length buf) - nat cap) (map cameraImg buf @ [cvtColor lib img])"
    by (simp add: same buf2 newFrame_def drop_map [symmetric])
  have "map cameraImg buf' =
     drop (length buf1 + length idxs - nat cap)
       (map cameraImg buf1 @ map (\<lambda>i. cvtColor lib (the (imread lib (imgPath src i)))) idxs)"
    by (rule Cons.IH [OF Cons.prems(1) bound rest])
  also have "\<dots> = drop (length (map cameraImg buf @ [cvtColor lib img]) + length idxs - nat cap)
       ((map cameraImg buf @ [cvtColor lib img])
          @ map (\<lambda>i. cvtColor lib (the (imread lib (imgPath src i)))) idxs)"
    using drop_window [of "map cameraImg buf @ [cvtColor lib img]" "nat cap" "length idxs"]
    by (simp add: imgs len buf2)
  finally show ?case
    by (simp add: img)
qed

text \<open>
  C2. With a capacity of at least 1 and a buffer within it, a push succeeds, leaves the
  buffer within the capacity, and drops the oldest frame first exactly when the buffer
  was full. Over a run of the image loop the buffer stays within the capacity and holds
  the images loaded last, in order. With capacity 2, pushing \<open>F1\<close>, \<open>F2\<close>, \<open>F3\<close> leaves
  \<open>[F2, F3]\<close>: the frame before the last is \<open>F2\<close>, the last is \<open>F3\<close>, and the match
  step hands the matcher the keypoints and descriptors of exactly these two.
\<close>

theorem frame_buffer_bounded_fifo:
  "(1 \<le> cap \<and> int (length buf) \<le> cap \<longrightarrow>
      pushFrame cap fr buf = Inr ((if int (length buf) = cap then tl buf else buf) @ [fr])
      \<and> int (length ((if int (length buf) = cap then tl buf else buf) @ [fr])) \<le> cap)
   \<and> (1 \<le> cap \<and> int (length buf) \<le> cap
        \<and> runImages lib det desc mt st src cap focus save idxs buf s = (Inr buf', s') \<longrightarrow>
      int (length buf') \<le> cap
      \<and> map cameraImg buf' =
          drop (length buf + length idxs - nat cap)
            (map cameraImg buf
               @ map (\<lambda>i. cvtColor lib (the (imread lib (imgPath src i)))) idxs))
   \<and> pushFrame 2 F1 [] = Inr [F1]
   \<and> pushFrame 2 F2 [F1] = Inr [F1, F2]
   \<and> pushFrame 2 F3 [F1, F2] = Inr [F2, F3]
   \<and> previousFrame [F2, F3] = F2 \<and> latestFrame [F2, F3] = F3
   \<and> matchStep lib det desc mt st save i [F2, F3] s =
       (case matchDescriptors lib (keypoints F2) (keypoints F3) (descriptors F2)
               (descriptors F3) [] desc mt st of
          Inl f \<Rightarrow> (Inl f, s)
        | Inr matches \<Rightarrow>
            (Inr [F2, F3\<lparr>kptMatches := matches\<rparr>],
             s\<lparr>matchLog := matchLog s @
                  [Row \<lparr>mr_imgIndex = i, mr_detectorType = det, mr_descriptorType = desc,
                        mr_numMatches = length matches\<rparr>],
                savedImages :=
                  (if save then savedImages s @ [matchImagePath det desc i]
                   else savedImages s)\<rparr>))"
proof -
  have push: "pushFrame cap fr buf = Inr ((if int (length buf) = cap then tl buf else buf) @ [fr])
      \<and> int (length ((if int (length buf) = cap then tl buf else buf) @ [fr])) \<le> cap"
    if "1 \<le> cap" "int (length buf) \<le> cap"
    using that pushFrame_bounded [OF that] by auto
  have run: "int (length buf') \<le> cap
      \<and> map cameraImg buf' =
          drop (length buf + length idxs - nat cap)
            (map cameraImg buf
               @ map (\<lambda>i. cvtColor lib (the (imread lib (imgPath src i)))) idxs)"
    if "1 \<le> cap" "int (length buf) \<le> cap"
      "runImages lib det desc mt st src cap focus save idxs buf s = (Inr buf', s')"
  proof -
    note imgs = runImages_buffer [OF that]
    have "length (map cameraImg buf') \<le> nat cap"
      unfolding imgs using that(1) by simp
    then have "length buf' \<le> nat cap"
      by (simp only: length_map)
    then have "int (length buf') \<le> cap"
      using that(1) by linarith
    with imgs show ?thesis
      by (rule_tac conjI)
  qed
  have three: "pushFrame 2 F1 [] = Inr [F1]" "pushFrame 2 F2 [F1] = Inr [F1, F2]"
    "pushFrame 2 F3 [F1, F2] = Inr [F2, F3]"
    by (simp_all add: pushFrame_def)
  have frames: "previousFrame [F2, F3] = F2" "latestFrame [F2, F3] = F3"
    by (simp_all add: previousFrame_def latestFrame_def)
  have step: "matchStep lib det desc mt st save i [F2, F3] s =
       (case matchDescriptors lib (keypoints F2) (keypoints F3) (descriptors F2)
               (descriptors F3) [] desc mt st of
          Inl f \<Rightarrow> (Inl f, s)
        | Inr matches \<Rightarrow>
            (Inr [F2, F3\<lparr>kptMatches := matches\<rparr>],
             s\<lparr>matchLog := matchLog s @
                  [Row \<lparr>mr_imgIndex = i, mr_detectorType = det, mr_descriptorType = desc,
                        mr_numMatches = length matches\<rparr>],
                savedImages :=
                  (if save then savedImages s @ [matchImagePath det desc i]
                   else savedImages s)\<rparr>))"
    by (simp add: matchStep_def frames updateBack_def split: sum.split)
  from push run three frames step show ?thesis
    by blast
qed

theorem frame_buffer_bounded_fifo_witness:
  "pushFrame 2 (newFrame ''c'' :: (string, real) DataFrame) [newFrame ''a'', newFrame ''b'']
     = Inr [newFrame ''b'', newFrame ''c'']
   \<and> (\<exists>buf' s'. runImages (testLib [] threeKeypoints) ''FAST'' ''BRISK'' ''MAT_BF'' ''SEL_NN''
          mainImageSource 2 True False [0, 1, 2] [] openLogs = (Inr buf', s')
        \<and> int (length buf') \<le> 2
        \<and> map cameraImg buf' = [imgPath mainImageSource 1, imgPath mainImageSource 2])"
proof -
  let ?a = "newFrame ''a'' :: (string, real) DataFrame"
  let ?b = "newFrame ''b'' :: (string, real) DataFrame"
  let ?c = "newFrame ''c'' :: (string, real) DataFrame"
  let ?run = "runImages (testLib [] threeKeypoints) ''FAST'' ''BRISK'' ''MAT_BF'' ''SEL_NN''
          mainImageSource 2 True False [0, 1, 2] [] openLogs"
  note inst = frame_buffer_bounded_fifo [where cap = 2 and lib = "testLib [] threeKeypoints"
      and det = "''FAST''" and desc = "''BRISK''" and mt = "''MAT_BF''" and st = "''SEL_NN''"
      and src = mainImageSource and focus = True and save = False and idxs = "[0, 1, 2]"
      and s = openLogs]
  have full: "(1::int) \<le> 2 \<and> int (length [?a, ?b]) \<le> 2"
    by simp
  from inst [where buf = "[?a, ?b]" and fr = ?c] full
  have "pushFrame 2 ?c [?a, ?b] = Inr ((if int (length [?a, ?b]) = 2 then tl [?a, ?b] else [?a, ?b]) @ [?c])"
    by blast
  then have one: "pushFrame 2 ?c [?a, ?b] = Inr [?b, ?c]"
    by simp
  have "\<not> isl (fst ?run)"
    by code_simp
  then obtain buf' s' where run: "?run = (Inr buf', s')"
    by (cases ?run; cases "fst ?run") auto
  have empty: "(1::int) \<le> 2 \<and> int (length ([] :: (string, real) DataFrame list)) \<le> 2"
    by simp
  from inst [where buf = "[]" and buf' = buf' and s' = s'] empty run
  have bound: "int (length buf') \<le> 2"
    and imgs: "map cameraImg buf' =
          drop (length ([] :: (string, real) DataFrame list) + length [0::nat, 1, 2] - nat 2)
            (map cameraImg ([] :: (string, real) DataFrame list)
               @ map (\<lambda>i. cvtColor (testLib [] threeKeypoints)
                   (the (imread (testLib [] threeKeypoints) (imgPath mainImageSource i)))) [0, 1, 2])"
    by blast+
  have "map cameraImg buf' = [imgPath mainImageSource 1, imgPath mainImageSource 2]"
    unfolding imgs by (simp add: testLib_def)
  with one run bound show ?thesis
    by simp
qed

section \<open>The keypoint statistics\<close>

lemma matchStep_keypointLog:
  "keypointLog (snd (matchStep lib det desc mt st save i buf s)) = keypointLog s"
  by (simp add: matchStep_def split: sum.split)

lemma describeStep_keypointLog:
  "keypointLog (snd (describeStep lib det desc mt st save i buf s)) = keypointLog s"
  by (simp add: describeStep_def matchStep_keypointLog split: sum.split prod.split)

lemma processImage_keypointLog:
  assumes "imread lib (imgPath src i) = Some img"
    and "pushFrame cap (newFrame (cvtColor lib img)) buf = Inr buf1"
    and "detectAndFilterKeypoints lib (cameraImg (latestFrame buf1)) det focus = Inr kps"
  shows "keypointLog (snd (processImage lib det desc mt st src cap focus save i buf s)) =
     logKeypointStats (keypointLog s) i det kps"
  using assms
  by (simp add: processImage_def loadGrayscaleImage_def describeStep_keypointLog)

lemma latestFrame_pushFrame:
  "pushFrame cap fr buf = Inr buf1 \<Longrightarrow> latestFrame buf1 = fr"
  by (auto simp: pushFrame_def latestFrame_def split: if_splits list.splits)

lemma updateBack_pushFrame:
  "pushFrame cap fr buf = Inr buf1 \<Longrightarrow> updateBack f buf1 = butlast buf1 @ [f fr]"
  by (auto simp: pushFrame_def updateBack_def split: if_splits list.splits)

text \<open>
  C10. On an empty keypoint vector the statistics row has count 0 and minimum, maximum
  and mean size 0. The runner writes that row for every image that loads and whose
  filtered keypoints are empty, whatever happens later in the loop body.
\<close>

theorem empty_keypoints_row:
  "logKeypointStats logf i det [] =
     logf @ [Row \<lparr>kr_imgIndex = i, kr_detectorType = det,
                   kr_numKeypoints = 0, kr_minSize = Finite 0, kr_maxSize = Finite 0, kr_meanSize = Finite 0\<rparr>]
   \<and> (imread lib (imgPath src i) = Some img
        \<and> pushFrame cap (newFrame (cvtColor lib img)) buf = Inr buf1
        \<and> detectAndFilterKeypoints lib (cvtColor lib img) det focus = Inr [] \<longrightarrow>
      keypointLog (snd (processImage lib det desc mt st src cap focus save i buf s)) =
        keypointLog s @ [Row \<lparr>kr_imgIndex = i, kr_detectorType = det,
                   kr_numKeypoints = 0, kr_minSize = Finite 0, kr_maxSize = Finite 0, kr_meanSize = Finite 0\<rparr>])"
proof -
  have row: "logKeypointStats logf i det [] =
     logf @ [Row \<lparr>kr_imgIndex = i, kr_detectorType = det,
                   kr_numKeypoints = 0, kr_minSize = Finite 0, kr_maxSize = Finite 0, kr_meanSize = Finite 0\<rparr>]"
    for logf
    by (simp add: logKeypointStats_def)
  have "keypointLog (snd (processImage lib det desc mt st src cap focus save i buf s)) =
      logKeypointStats (keypointLog s) i det []"
    if "imread lib (imgPath src i) = Some img"
      and push: "pushFrame cap (newFrame (cvtColor lib img)) buf = Inr buf1"
      and "detectAndFilterKeypoints lib (cvtColor lib img) det focus = Inr []"
    using that processImage_keypointLog [OF that(1,2), of det focus "[]"]
    by (simp add: latestFrame_pushFrame [OF push] newFrame_def)
  then show ?thesis
    by (simp add: row)
qed

theorem empty_keypoints_row_witness:
  "keypointLog (snd (processImage (testLib [] [keypointAt 10 10 3]) ''FAST'' ''BRISK'' ''MAT_BF''
       ''SEL_KNN'' mainImageSource 2 True False 0 [] openLogs)) =
     [Header ''ImageIndex,DetectorType,NumKeypoints,MinSize,MaxSize,MeanSize'',
      Row \<lparr>kr_imgIndex = 0, kr_detectorType = ''FAST'',
                   kr_numKeypoints = 0, kr_minSize = Finite 0, kr_maxSize = Finite 0, kr_meanSize = Finite 0\<rparr>]"
proof -
  let ?lib = "testLib [] [keypointAt 10 10 3]"
  let ?img = "imgPath mainImageSource 0"
  have load: "imread ?lib (imgPath mainImageSource 0) = Some ?img"
    by code_simp
  have gray: "cvtColor ?lib ?img = ?img"
    by (simp add: testLib_def)
  have push: "pushFrame 2 (newFrame (cvtColor ?lib ?img)) [] = Inr [newFrame ?img]"
    by (simp add: pushFrame_def gray)
  have det: "detectAndFilterKeypoints ?lib (cvtColor ?lib ?img) ''FAST'' True = Inr []"
    by code_simp
  have log0: "keypointLog openLogs =
      [Header ''ImageIndex,DetectorType,NumKeypoints,MinSize,MaxSize,MeanSize'']"
    by (simp add: openLogs_def)
  from empty_keypoints_row [of _ 0 "''FAST''" ?lib mainImageSource ?img 2 "[]" "[newFrame ?img]"
      True "''BRISK''" "''MAT_BF''" "''SEL_KNN''" False openLogs] load push det
  have "keypointLog (snd (processImage ?lib ''FAST'' ''BRISK'' ''MAT_BF''
       ''SEL_KNN'' mainImageSource 2 True False 0 [] openLogs)) =
     keypointLog openLogs @ [Row \<lparr>kr_imgIndex = 0, kr_detectorType = ''FAST'',
                   kr_numKeypoints = 0, kr_minSize = Finite 0, kr_maxSize = Finite 0, kr_meanSize = Finite 0\<rparr>]"
    by blast
  then show ?thesis
    by (simp add: log0)
qed

section \<open>Keypoints and descriptors after extraction\<close>

lemma updateBack_snoc: "updateBack f (xs @ [x]) = xs @ [f x]"
  by (simp add: updateBack_def)

text \<open>
  C7, as stated, fails: with an extractor that returns one descriptor for two keypoints
  the runner raises nothing, matches the misaligned frames and logs the match count.
\<close>

theorem alignment_unchecked_counterexample:
  "descKeypoints misalignedLib [keypointAt 600 200 7, keypointAt 700 300 5]
       (imgPath twoImages 0) ''BRISK''
     = Inr ([keypointAt 600 200 7, keypointAt 700 300 5], [600])
   \<and> runCombination misalignedLib ''FAST'' ''BRISK'' ''MAT_BF'' ''SEL_NN'' twoImages 2 True False
       openLogs
     = (Inr (),
        \<lparr>keypointLog =
           [Header ''ImageIndex,DetectorType,NumKeypoints,MinSize,MaxSize,MeanSize'',
            Row \<lparr>kr_imgIndex = 0, kr_detectorType = ''FAST'', kr_numKeypoints = 2,
                  kr_minSize = Finite 5, kr_maxSize = Finite 7, kr_meanSize = Finite 6\<rparr>,
            Row \<lparr>kr_imgIndex = 1, kr_detectorType = ''FAST'', kr_numKeypoints = 2,
                  kr_minSize = Finite 5, kr_maxSize = Finite 7, kr_meanSize = Finite 6\<rparr>],
         matchLog =
           [Header ''ImageIndex,DetectorType,DescriptorType,NumMatches'',
            Row \<lparr>mr_imgIndex = 1, mr_detectorType = ''FAST'', mr_descriptorType = ''BRISK'',
                  mr_numMatches = 1\<rparr>],
         savedImages = [], cerr = []\<rparr>)"
  by code_simp

text \<open>
  C7, amended. The runner makes no alignment check. For an image that loads and whose
  keypoints are detected, whatever keypoints and descriptors the extraction returns,
  of whatever lengths, are stored in the last frame as they are, and the loop body
  goes on to the match step; on the first image it ends there with that frame.
\<close>

theorem extraction_result_stored_unchecked:
  assumes load: "imread lib (imgPath src i) = Some img"
    and push: "pushFrame cap (newFrame (cvtColor lib img)) buf = Inr buf1"
    and det: "detectAndFilterKeypoints lib (cvtColor lib img) det focus = Inr kps"
    and ext: "descKeypoints lib kps (cvtColor lib img) desc = Inr (kps', descs)"
  shows "processImage lib det desc mt st src cap focus save i buf s =
      matchStep lib det desc mt st save i
        (butlast buf1 @ [\<lparr>cameraImg = cvtColor lib img, keypoints = kps',
                           descriptors = descs, kptMatches = []\<rparr>])
        (s\<lparr>keypointLog := logKeypointStats (keypointLog s) i det kps\<rparr>)
     \<and> (buf = [] \<longrightarrow>
        processImage lib det desc mt st src cap focus save i buf s =
          (Inr [\<lparr>cameraImg = cvtColor lib img, keypoints = kps',
                  descriptors = descs, kptMatches = []\<rparr>],
           s\<lparr>keypointLog := logKeypointStats (keypointLog s) i det kps\<rparr>))"
proof -
  let ?gray = "cvtColor lib img"
  let ?stored = "\<lparr>cameraImg = ?gray, keypoints = kps', descriptors = descs, kptMatches = []\<rparr>"
  let ?s1 = "s\<lparr>keypointLog := logKeypointStats (keypointLog s) i det kps\<rparr>"
  have last1: "latestFrame buf1 = newFrame ?gray"
    by (rule latestFrame_pushFrame [OF push])
  have upd1: "updateBack (\<lambda>fr. fr\<lparr>keypoints := kps\<rparr>) buf1 =
      butlast buf1 @ [(newFrame ?gray)\<lparr>keypoints := kps\<rparr>]"
    by (rule updateBack_pushFrame [OF push])
  have desc_step: "describeStep lib det desc mt st save i
      (butlast buf1 @ [(newFrame ?gray)\<lparr>keypoints := kps\<rparr>]) ?s1 =
      matchStep lib det desc mt st save i (butlast buf1 @ [?stored]) ?s1"
    by (simp add: describeStep_def latestFrame_def newFrame_def ext updateBack_snoc)
  have gray: "cameraImg (newFrame ?gray :: ('a, 'b) DataFrame) = ?gray"
    by (simp add: newFrame_def)
  have run: "processImage lib det desc mt st src cap focus save i buf s =
      matchStep lib det desc mt st save i (butlast buf1 @ [?stored]) ?s1"
    by (simp add: processImage_def loadGrayscaleImage_def load push last1 gray det upd1
        desc_step)
  have first: "matchStep lib det desc mt st save i (butlast buf1 @ [?stored]) ?s1 =
      (Inr [?stored], ?s1)" if "buf = []"
    using push that by (auto simp: pushFrame_def matchStep_def split: if_splits)
  show ?thesis
  proof (intro conjI impI)
    show "processImage lib det desc mt st src cap focus save i buf s =
        matchStep lib det desc mt st save i (butlast buf1 @ [?stored]) ?s1"
      by (rule run)
  next
    assume "buf = []"
    then have "matchStep lib det desc mt st save i (butlast buf1 @ [?stored]) ?s1 =
        (Inr [?stored], ?s1)"
      by (rule first)
    with run show "processImage lib det desc mt st src cap focus save i buf s =
        (Inr [?stored], ?s1)"
      by (rule trans)
  qed
qed

theorem extraction_result_stored_unchecked_witness:
  "processImage misalignedLib ''FAST'' ''BRISK'' ''MAT_BF'' ''SEL_NN'' twoImages 2 True False 0 []
       openLogs =
     (Inr [\<lparr>cameraImg = imgPath twoImages 0,
             keypoints = [keypointAt 600 200 7, keypointAt 700 300 5],
             descriptors = [600], kptMatches = []\<rparr>],
      openLogs\<lparr>keypointLog := logKeypointStats (keypointLog openLogs) 0 ''FAST''
         [keypointAt 600 200 7, keypointAt 700 300 5]\<rparr>)"
proof -
  let ?img = "imgPath twoImages 0"
  let ?kps = "[keypointAt 600 200 7, keypointAt 700 300 5]"
  have gray: "cvtColor misalignedLib ?img = ?img"
    by (simp add: misalignedLib_def testLib_def)
  have load: "imread misalignedLib (imgPath twoImages 0) = Some ?img"
    by code_simp
  have push: "pushFrame 2 (newFrame (cvtColor misalignedLib ?img)) [] =
      Inr [newFrame (cvtColor misalignedLib ?img) :: (string, real) DataFrame]"
    by (simp add: pushFrame_def)
  have det: "detectAndFilterKeypoints misalignedLib (cvtColor misalignedLib ?img) ''FAST'' True =
      Inr ?kps"
    unfolding gray by code_simp
  have ext: "descKeypoints misalignedLib ?kps (cvtColor misalignedLib ?img) ''BRISK'' =
      Inr (?kps, [600])"
    unfolding gray by code_simp
  note inst = extraction_result_stored_unchecked [OF load push det ext,
      of "''MAT_BF''" "''SEL_NN''" False openLogs]
  have first: "([] :: (string, real) DataFrame list) = []"
    by simp
  from inst [THEN conjunct2, rule_format, OF first]
  show ?thesis
    by (simp only: gray)
qed

section \<open>The pairing constraint\<close>

lemma spec_runPairings_append:
  "spec_runPairings lib opts (ps @ qs) s =
     (case spec_runPairings lib opts ps s of
        None \<Rightarrow> None
      | Some s' \<Rightarrow> spec_runPairings lib opts qs s')"
  by (induction ps arbitrary: s) (auto split: option.splits)

lemma descriptorLoop_pairings:
  "descriptorLoop lib opts det descs s =
     spec_runPairings lib opts
       (map (\<lambda>desc. (det, desc)) (filter (\<lambda>desc. desc \<noteq> ''AKAZE'' \<or> det = ''AKAZE'') descs)) s"
  by (induction descs arbitrary: s) (auto split: option.splits)

lemma detectorLoop_pairings:
  "detectorLoop lib opts dets descs s =
     spec_runPairings lib opts (spec_validPairings dets descs) s"
proof (induction dets arbitrary: s)
  case Nil
  then show ?case by (simp add: spec_validPairings_def)
next
  case (Cons det dets)
  have split: "spec_validPairings (det # dets) descs =
      map (\<lambda>desc. (det, desc)) (filter (\<lambda>desc. desc \<noteq> ''AKAZE'' \<or> det = ''AKAZE'') descs)
        @ spec_validPairings dets descs"
    by (simp add: spec_validPairings_def)
  show ?case
    by (simp add: split spec_runPairings_append descriptorLoop_pairings Cons.IH
        split: option.split)
qed

lemma set_spec_validPairings:
  "set (spec_validPairings dets descs) =
     {(det, desc). det \<in> set dets \<and> desc \<in> set descs \<and> (desc = ''AKAZE'' \<longrightarrow> det = ''AKAZE'')}"
  by (auto simp: spec_validPairings_def)

text \<open>
  C8. The loops of the sweep invoke the combination runner on exactly the valid
  pairings, in order: the pairs of a detector and a descriptor from the two lists, less
  every pair of the AKAZE descriptor with another detector. Such a pair is skipped
  before the runner is reached: the sweep's state passes it by unchanged.
\<close>

theorem akaze_descriptor_only_with_akaze_detector:
  "detectorLoop lib opts dets descs s =
     spec_runPairings lib opts (spec_validPairings dets descs) s
   \<and> set (spec_validPairings dets descs) =
       {(det, desc). det \<in> set dets \<and> desc \<in> set descs
          \<and> (desc = ''AKAZE'' \<longrightarrow> det = ''AKAZE'')}
   \<and> (\<forall>det. det \<noteq> ''AKAZE'' \<longrightarrow> (det, ''AKAZE'') \<notin> set (spec_validPairings dets descs))
   \<and> (\<forall>det. det \<noteq> ''AKAZE'' \<longrightarrow>
        descriptorLoop lib opts det (''AKAZE'' # rest) s = descriptorLoop lib opts det rest s)"
  by (simp add: detectorLoop_pairings set_spec_validPairings)

theorem akaze_descriptor_only_with_akaze_detector_witness:
  "(''FAST'', ''AKAZE'') \<notin> set (spec_validPairings [''FAST'', ''AKAZE''] [''AKAZE'', ''ORB''])
   \<and> spec_validPairings [''FAST'', ''AKAZE''] [''AKAZE'', ''ORB''] =
       [(''FAST'', ''ORB''), (''AKAZE'', ''AKAZE''), (''AKAZE'', ''ORB'')]
   \<and> detectorLoop (testLib [] []) defaultOptions [''FAST'', ''AKAZE''] [''AKAZE'', ''ORB'']
       openLogs =
     spec_runPairings (testLib [] []) defaultOptions
       [(''FAST'', ''ORB''), (''AKAZE'', ''AKAZE''), (''AKAZE'', ''ORB'')] openLogs
   \<and> descriptorLoop (testLib [] []) defaultOptions ''FAST'' [''AKAZE''] openLogs = Some openLogs"
proof -
  note inst = akaze_descriptor_only_with_akaze_detector [of "testLib [] []" defaultOptions
      "[''FAST'', ''AKAZE'']" "[''AKAZE'', ''ORB'']" openLogs "[]"]
  have other: "''FAST'' \<noteq> ''AKAZE''"
    by simp
  have pairs: "spec_validPairings [''FAST'', ''AKAZE''] [''AKAZE'', ''ORB''] =
       [(''FAST'', ''ORB''), (''AKAZE'', ''AKAZE''), (''AKAZE'', ''ORB'')]"
    by code_simp
  have absent:
    "(''FAST'', ''AKAZE'') \<notin> set (spec_validPairings [''FAST'', ''AKAZE''] [''AKAZE'', ''ORB''])"
    by (rule inst [THEN conjunct2, THEN conjunct2, THEN conjunct1, rule_format, OF other])
  from inst have "detectorLoop (testLib [] []) defaultOptions [''FAST'', ''AKAZE'']
      [''AKAZE'', ''ORB''] openLogs =
      spec_runPairings (testLib [] []) defaultOptions
        (spec_validPairings [''FAST'', ''AKAZE''] [''AKAZE'', ''ORB'']) openLogs"
    by (rule conjunct1)
  then have run: "detectorLoop (testLib [] []) defaultOptions [''FAST'', ''AKAZE'']
      [''AKAZE'', ''ORB''] openLogs =
      spec_runPairings (testLib [] []) defaultOptions
        [(''FAST'', ''ORB''), (''AKAZE'', ''AKAZE''), (''AKAZE'', ''ORB'')] openLogs"
    by (simp only: pairs)
  have "descriptorLoop (testLib [] []) defaultOptions ''FAST'' (''AKAZE'' # [])
      openLogs = descriptorLoop (testLib [] []) defaultOptions ''FAST'' [] openLogs"
    by (rule inst [THEN conjunct2, THEN conjunct2, THEN conjunct2, rule_format, OF other])
  then have skip: "descriptorLoop (testLib [] []) defaultOptions ''FAST'' [''AKAZE''] openLogs =
      Some openLogs"
    by (simp only: descriptorLoop.simps(1))
  from absent pairs run skip show ?thesis
    by (intro conjI)
qed

section \<open>The command line\<close>













section \<open>Failures stay inside their combination\<close>
















lemma pushFrame_not_thrown: "pushFrame cap fr buf \<noteq> Inl (Thrown e)"
  by (auto simp: pushFrame_def split: list.splits)


















end
